theory Spec2Isabelle
  imports Main "HOL-Library.Word" "HOL-Library.Monad_Syntax"
begin

section \<open>The log helper worker of rspamd (src/log_helper.c)\<close>

text \<open>
  The worker receives one binary frame per scanned message over a local socket pair and
  hands it to every registered Lua callback. This theory embeds \<open>rspamd_log_helper_read\<close>,
  \<open>rspamd_log_helper_reply_handler\<close> and \<open>start_log_helper\<close>, together with the part of
  the Lua C API, of the socket layer and of the event loop that these three functions use.
\<close>

subsection \<open>Platform and wire layout\<close>

type_synonym byte = "8 word"

datatype endian = LittleEndian | BigEndian

text \<open>
  Modelled from the spec: the declarations of \<open>struct rspamd_protocol_log_message_sum\<close> and
  \<open>struct rspamd_protocol_log_symbol_result\<close> are not among the sources. The spec gives the
  header as a 32-bit count, two 64-bit floating-point scores and a 32-bit unsigned settings
  identifier, and each result as a 32-bit signed identifier with a 64-bit floating-point
  score. Sizes and field offsets depend on the compiler, so they are parameters here;
  the count is the exception, the code itself reads it from offset 0 of the buffer.
  \<open>have_sock_seqpacket\<close> is the configuration macro \<open>HAVE_SOCK_SEQPACKET\<close>.
\<close>

record platform =
  byte_order :: endian
  have_sock_seqpacket :: bool
  header_size :: nat
  symbol_result_size :: nat
  score_off :: nat
  required_score_off :: nat
  settings_id_off :: nat
  res_id_off :: nat
  res_score_off :: nat

text \<open>\<open>sizeof (buf)\<close> for \<open>guchar buf[1024]\<close>.\<close>

definition buf_size :: nat where
  "buf_size = 1024"

fun le_nat :: "byte list \<Rightarrow> nat" where
  "le_nat [] = 0"
| "le_nat (b # bs) = unat b + 256 * le_nat bs"

definition bytes_nat :: "endian \<Rightarrow> byte list \<Rightarrow> nat" where
  "bytes_nat e bs = (case e of LittleEndian \<Rightarrow> le_nat bs | BigEndian \<Rightarrow> le_nat (rev bs))"

text \<open>
  A \<open>memcpy\<close> of four (eight) bytes at an offset of the buffer into an integer (a double).
  A double is kept as its 64-bit pattern: the code only passes it on.
\<close>

definition load_u32 :: "endian \<Rightarrow> byte list \<Rightarrow> nat \<Rightarrow> 32 word" where
  "load_u32 e bs off = of_nat (bytes_nat e (take 4 (drop off bs)))"

definition load_f64 :: "endian \<Rightarrow> byte list \<Rightarrow> nat \<Rightarrow> 64 word" where
  "load_f64 e bs off = of_nat (bytes_nat e (take 8 (drop off bs)))"

text \<open>The fields \<open>sm->score\<close>, \<open>sm->required_score\<close>, \<open>sm->settings_id\<close>,
  \<open>sm->results[i].id\<close> and \<open>sm->results[i].score\<close> of the copied frame \<open>sm\<close>.\<close>

definition sm_score :: "platform \<Rightarrow> byte list \<Rightarrow> 64 word" where
  "sm_score P sm = load_f64 (byte_order P) sm (score_off P)"

definition sm_required_score :: "platform \<Rightarrow> byte list \<Rightarrow> 64 word" where
  "sm_required_score P sm = load_f64 (byte_order P) sm (required_score_off P)"

definition sm_settings_id :: "platform \<Rightarrow> byte list \<Rightarrow> 32 word" where
  "sm_settings_id P sm = load_u32 (byte_order P) sm (settings_id_off P)"

definition sm_result_id :: "platform \<Rightarrow> byte list \<Rightarrow> nat \<Rightarrow> 32 word" where
  "sm_result_id P sm i =
     load_u32 (byte_order P) sm (header_size P + i * symbol_result_size P + res_id_off P)"

definition sm_result_score :: "platform \<Rightarrow> byte list \<Rightarrow> nat \<Rightarrow> 64 word" where
  "sm_result_score P sm i =
     load_f64 (byte_order P) sm (header_size P + i * symbol_result_size P + res_score_off P)"

subsection \<open>The Lua values and the part of the Lua C API that the worker calls\<close>

text \<open>
  A \<open>lua_Number\<close> is a double. The worker pushes doubles taken from the frame as they are
  (\<open>Double\<close>, the bit pattern) and integers converted to double (\<open>Integral\<close>, exact for
  every 32-bit value).
\<close>

datatype lua_Number = Double "64 word" | Integral int

datatype lval =
    LNil
  | LNum lua_Number
  | LStr string
  | LTable "(int \<times> lval) list"
  | LUserdata "string option" "nat option"
  | LFunction nat

text \<open>
  The state of the interpreter as far as the worker sees it: the value stack (top first),
  the registry of referenced callbacks, the state that the scripts own (\<open>globals\<close>), and
  the history of protected calls, each with the called value, its arguments in call order
  and the error it raised, if any.
\<close>

record 'g lua_State =
  stack :: "lval list"
  registry :: "(int \<times> lval) list"
  globals :: 'g
  pcalls :: "(lval \<times> lval list \<times> lval option) list"

text \<open>
  The scripting engine: what a call of a value with arguments does to the scripts' state
  and whether it raises an error (\<open>Some\<close> of the error value), and how a number prints.
\<close>

record 'g engine =
  run_fn :: "'g \<Rightarrow> lval \<Rightarrow> lval list \<Rightarrow> lval option \<times> 'g"
  fmt_number :: "lua_Number \<Rightarrow> string"

definition push :: "lval \<Rightarrow> 'g lua_State \<Rightarrow> 'g lua_State" where
  "push v ls = ls\<lparr>stack := v # stack ls\<rparr>"

text \<open>\<open>lua_rawgeti (L, LUA_REGISTRYINDEX, ref)\<close>: an absent reference reads as nil.\<close>

definition registry_get :: "'g lua_State \<Rightarrow> int \<Rightarrow> lval" where
  "registry_get ls ref = (case map_of (registry ls) ref of None \<Rightarrow> LNil | Some v \<Rightarrow> v)"

definition lua_rawgeti_registry :: "int \<Rightarrow> 'g lua_State \<Rightarrow> 'g lua_State" where
  "lua_rawgeti_registry ref ls = push (registry_get ls ref) ls"

definition lua_pushnumber :: "lua_Number \<Rightarrow> 'g lua_State \<Rightarrow> 'g lua_State" where
  "lua_pushnumber x ls = push (LNum x) ls"

text \<open>\<open>lua_createtable\<close>: its two size arguments only preallocate.\<close>

definition lua_createtable :: "'g lua_State \<Rightarrow> 'g lua_State" where
  "lua_createtable ls = push (LTable []) ls"

fun tbl_set :: "int \<Rightarrow> lval \<Rightarrow> (int \<times> lval) list \<Rightarrow> (int \<times> lval) list" where
  "tbl_set k v [] = (if v = LNil then [] else [(k, v)])"
| "tbl_set k v ((k', v') # kvs) =
     (if k' = k then (if v = LNil then kvs else (k, v) # kvs)
      else (k', v') # tbl_set k v kvs)"

text \<open>
  \<open>lua_rawseti (L, -2, k)\<close>: stores the top value under key \<open>k\<close> of the table right below
  it and pops the value. Anything else below the top is a misuse of the API (\<open>None\<close>).
\<close>

definition lua_rawseti :: "int \<Rightarrow> 'g lua_State \<Rightarrow> 'g lua_State option" where
  "lua_rawseti k ls =
     (case stack ls of
        v # LTable kvs # rest \<Rightarrow> Some (ls\<lparr>stack := LTable (tbl_set k v kvs) # rest\<rparr>)
      | _ \<Rightarrow> None)"

text \<open>\<open>lua_newuserdata\<close> pushes a fresh block without a class and without content.\<close>

definition lua_newuserdata :: "'g lua_State \<Rightarrow> 'g lua_State" where
  "lua_newuserdata ls = push (LUserdata None None) ls"

text \<open>The store \<open>*pcfg = ctx->cfg\<close> into the block just pushed.\<close>

definition store_userdata :: "nat \<Rightarrow> 'g lua_State \<Rightarrow> 'g lua_State option" where
  "store_userdata p ls =
     (case stack ls of
        LUserdata c _ # rest \<Rightarrow> Some (ls\<lparr>stack := LUserdata c (Some p) # rest\<rparr>)
      | _ \<Rightarrow> None)"

text \<open>
  Modelled from the spec: \<open>rspamd_lua_setclass\<close> (lua_common.c) is not among the sources.
  The spec hands the handlers \<open>an opaque reference to worker-wide configuration state\<close>; the
  call \<open>rspamd_lua_setclass (L, "rspamd{config}", -1)\<close> gives the userdata on top of the
  stack its class and leaves the stack as it found it, as every caller in
  src/lua/lua_mimepart.c relies on when it returns the userdata as its single result.
\<close>

definition rspamd_lua_setclass :: "string \<Rightarrow> 'g lua_State \<Rightarrow> 'g lua_State option" where
  "rspamd_lua_setclass cls ls =
     (case stack ls of
        LUserdata _ p # rest \<Rightarrow> Some (ls\<lparr>stack := LUserdata (Some cls) p # rest\<rparr>)
      | _ \<Rightarrow> None)"

definition LUA_ERRRUN :: int where
  "LUA_ERRRUN = 2"

text \<open>
  \<open>lua_pcall (L, nargs, 0, 0)\<close>: pops the arguments and the called value below them, runs
  the call, and with no results requested leaves nothing on success (status 0); on an error
  it leaves the error value and returns a non-zero status. The call is taken to return.
\<close>

definition lua_pcall ::
  "'g engine \<Rightarrow> nat \<Rightarrow> 'g lua_State \<Rightarrow> (int \<times> 'g lua_State) option" where
  "lua_pcall E nargs ls =
     (if length (stack ls) < Suc nargs then None
      else
        let args = rev (take nargs (stack ls));
            f = stack ls ! nargs;
            rest = drop (Suc nargs) (stack ls);
            (res, g) = run_fn E (globals ls) f args;
            ls' = ls\<lparr>globals := g, pcalls := pcalls ls @ [(f, args, res)]\<rparr>
        in case res of
             None \<Rightarrow> Some (0, ls'\<lparr>stack := rest\<rparr>)
           | Some err \<Rightarrow> Some (LUA_ERRRUN, ls'\<lparr>stack := err # rest\<rparr>))"

text \<open>\<open>lua_tostring (L, -1)\<close>: \<open>NULL\<close> unless the top value is a string or a number.\<close>

definition tostring :: "'g engine \<Rightarrow> lval \<Rightarrow> string option" where
  "tostring E v =
     (case v of LStr s \<Rightarrow> Some s | LNum x \<Rightarrow> Some (fmt_number E x) | _ \<Rightarrow> None)"

definition lua_tostring :: "'g engine \<Rightarrow> 'g lua_State \<Rightarrow> string option" where
  "lua_tostring E ls = (case stack ls of [] \<Rightarrow> None | v # _ \<Rightarrow> tostring E v)"

definition lua_pop :: "nat \<Rightarrow> 'g lua_State \<Rightarrow> 'g lua_State option" where
  "lua_pop k ls =
     (if length (stack ls) < k then None else Some (ls\<lparr>stack := drop k (stack ls)\<rparr>))"

subsection \<open>The worker's state\<close>

datatype sock_type = SOCK_SEQPACKET | SOCK_DGRAM

datatype log_msg =
    Warn_bad_length "32 word" nat
  | Warn_read_error nat
  | Err_handler "string option"
  | Info_start_waiting
  | Err_socketpair nat

datatype action =
    Socketpair sock_type
  | Lock_start_mtx
  | Srv_send_command
  | Unlock_start_mtx
  | Event_base_loop
  | Close_pair nat
  | Block_signals
  | Log_close
  | Exit int

text \<open>
  \<open>struct log_helper_ctx\<close>, with the Lua state held by value, the registered scripts as the
  list of their \<open>cbref\<close>s, and \<open>log_ev\<close> as whether the read event has been added to the
  event base. Two more fields record what the process did: the lines handed to the
  logger and the system-level actions, in order.
\<close>

record 'g log_helper_ctx =
  cfg :: nat
  scripts :: "int list"
  L :: "'g lua_State"
  log_ev_added :: bool
  logger :: "log_msg list"
  actions :: "action list"

definition msg :: "log_msg \<Rightarrow> 'g log_helper_ctx \<Rightarrow> 'g log_helper_ctx" where
  "msg m ctx = ctx\<lparr>logger := logger ctx @ [m]\<rparr>"

definition act :: "action \<Rightarrow> 'g log_helper_ctx \<Rightarrow> 'g log_helper_ctx" where
  "act a ctx = ctx\<lparr>actions := actions ctx @ [a]\<rparr>"

subsection \<open>Reading from the channel\<close>

text \<open>
  What the socket holds when the read event fires: a pending message (an empty one stands
  for a closed peer as well), or a failure with its \<open>errno\<close>. \<open>read (fd, buf, count)\<close> on a
  message socket returns the length that fits and drops the rest of the message, or -1.
\<close>

datatype chan_input = Pending "byte list" | Failing nat

fun sys_read :: "chan_input \<Rightarrow> nat \<Rightarrow> int \<times> byte list" where
  "sys_read (Pending d) count = (int (min (length d) count), take count d)"
| "sys_read (Failing e) count = (- 1, [])"

fun sys_errno :: "chan_input \<Rightarrow> nat" where
  "sys_errno (Pending d) = 0"
| "sys_errno (Failing e) = e"

subsection \<open>rspamd_log_helper_read\<close>

text \<open>A loop whose body may fail: it stops at the first failure.\<close>

fun foreach :: "('a \<Rightarrow> 's \<Rightarrow> 's option) \<Rightarrow> 'a list \<Rightarrow> 's \<Rightarrow> 's option" where
  "foreach f [] s = Some s"
| "foreach f (x # xs) s = (case f x s of None \<Rightarrow> None | Some s' \<Rightarrow> foreach f xs s')"

text \<open>
  The body of \<open>for (i = 0; i < n; i ++)\<close>: a two-element table with the identifier and the
  score of result \<open>i\<close>, stored under key \<open>i + 1\<close> of the table below it.
\<close>

definition push_symbol_result ::
  "platform \<Rightarrow> byte list \<Rightarrow> nat \<Rightarrow> 'g lua_State \<Rightarrow> 'g lua_State option" where
  "push_symbol_result P sm i ls0 = do {
     let ls1 = lua_createtable ls0;
     let ls2 = lua_pushnumber (Integral (sint (sm_result_id P sm i))) ls1;
     ls3 \<leftarrow> lua_rawseti 1 ls2;
     let ls4 = lua_pushnumber (Double (sm_result_score P sm i)) ls3;
     ls5 \<leftarrow> lua_rawseti 2 ls4;
     lua_rawseti (int i + 1) ls5
   }"

text \<open>
  The body of \<open>DL_FOREACH (ctx->scripts, sc)\<close>: push the callback and its five arguments,
  call it protected, and on a non-zero status log the error value and pop it.
\<close>

definition call_script ::
  "platform \<Rightarrow> 'g engine \<Rightarrow> byte list \<Rightarrow> 32 word \<Rightarrow> int \<Rightarrow>
     'g log_helper_ctx \<Rightarrow> 'g log_helper_ctx option" where
  "call_script P E sm n cbref ctx = do {
     let ls1 = lua_rawgeti_registry cbref (L ctx);
     let ls2 = lua_pushnumber (Double (sm_score P sm)) ls1;
     let ls3 = lua_pushnumber (Double (sm_required_score P sm)) ls2;
     let ls4 = lua_createtable ls3;
     ls5 \<leftarrow> foreach (push_symbol_result P sm) [0 ..< unat n] ls4;
     let ls6 = lua_newuserdata ls5;
     ls7 \<leftarrow> store_userdata (cfg ctx) ls6;
     ls8 \<leftarrow> rspamd_lua_setclass ''rspamd{config}'' ls7;
     let ls9 = lua_pushnumber (Integral (uint (sm_settings_id P sm))) ls8;
     (rc, ls10) \<leftarrow> lua_pcall E 5 ls9;
     if rc \<noteq> 0 then do {
       let ctx' = msg (Err_handler (lua_tostring E ls10)) ctx;
       ls11 \<leftarrow> lua_pop 1 ls10;
       Some (ctx'\<lparr>L := ls11\<rparr>)
     } else Some (ctx\<lparr>L := ls10\<rparr>)
   }"

text \<open>
  The callback of the read event. \<open>r\<close> is the signed result of \<open>read\<close>; once
  \<open>r >= sizeof (*sm)\<close> holds, the unsigned difference \<open>r - sizeof (*sm)\<close> is the natural
  number written here, and the frame \<open>sm\<close> is the copy of the first \<open>r\<close> bytes.
\<close>

definition rspamd_log_helper_read ::
  "platform \<Rightarrow> 'g engine \<Rightarrow> chan_input \<Rightarrow> 'g log_helper_ctx \<Rightarrow> 'g log_helper_ctx option" where
  "rspamd_log_helper_read P E inp ctx =
     (let (r, buf) = sys_read inp buf_size in
      if r \<ge> int (header_size P) then
        let n = load_u32 (byte_order P) buf 0;
            avail = (nat r - header_size P) div symbol_result_size P
        in if unat n \<noteq> avail then Some (msg (Warn_bad_length n avail) ctx)
           else
             let sm = take (nat r) buf
             in foreach (call_script P E sm n) (scripts ctx) ctx
      else if r = - 1 then Some (msg (Warn_read_error (sys_errno inp)) ctx)
      else Some ctx)"

subsection \<open>The reply handler, the event loop and the start function\<close>

text \<open>
  \<open>rspamd_log_helper_reply_handler\<close>: closes the endpoint that was sent away and adds the
  persistent read event (\<open>EV_READ | EV_PERSIST\<close>) for the retained endpoint.
\<close>

definition rspamd_log_helper_reply_handler :: "'g log_helper_ctx \<Rightarrow> 'g log_helper_ctx" where
  "rspamd_log_helper_reply_handler ctx =
     (let c1 = act (Close_pair 1) ctx;
          c2 = msg Info_start_waiting c1
      in c2\<lparr>log_ev_added := True\<rparr>)"

text \<open>
  What the event base delivers while \<open>event_base_loop\<close> runs: the reply of the main process
  to the command sent at start, a readiness notification for the retained endpoint with
  what \<open>read\<close> will find there, or the termination request that the worker framework
  turns into leaving the loop. A persistent event stays added after its callback has run;
  only a callback can remove it or stop the loop from inside.
  The run below is over a finite prefix of the events: it ends \<open>Stopped\<close> when the loop
  has returned, and in the phase the loop is in when the prefix is used up.
\<close>

datatype loop_event = Srv_reply | Read_ready chan_input | Term_signal

datatype phase = WaitingForRegistration | Running | Stopped

fun event_base_loop ::
  "platform \<Rightarrow> 'g engine \<Rightarrow> loop_event list \<Rightarrow> 'g log_helper_ctx \<Rightarrow>
     (phase \<times> 'g log_helper_ctx) option" where
  "event_base_loop P E [] ctx =
     Some (if log_ev_added ctx then Running else WaitingForRegistration, ctx)"
| "event_base_loop P E (Term_signal # evs) ctx = Some (Stopped, ctx)"
| "event_base_loop P E (Srv_reply # evs) ctx =
     event_base_loop P E evs (rspamd_log_helper_reply_handler ctx)"
| "event_base_loop P E (Read_ready inp # evs) ctx =
     (if log_ev_added ctx then
        (case rspamd_log_helper_read P E inp ctx of
           None \<Rightarrow> None
         | Some ctx' \<Rightarrow> event_base_loop P E evs ctx')
      else event_base_loop P E evs ctx)"

text \<open>The operating system at start: what \<open>socketpair\<close> returns for each socket type.\<close>

record os =
  socketpair_rc :: "sock_type \<Rightarrow> int"
  socketpair_errno :: "sock_type \<Rightarrow> nat"

definition EXIT_SUCCESS :: int where
  "EXIT_SUCCESS = 0"

text \<open>The fields of \<open>struct rspamd_worker\<close> that \<open>start_log_helper\<close> copies into its context.\<close>

record 'g rspamd_worker =
  srv_cfg :: nat
  cf_scripts :: "int list"
  cfg_lua_state :: "'g lua_State"

text \<open>
  \<open>start_log_helper\<close> from the command to the main process on: the send under the start
  mutex, the event loop, and after the loop has returned the close of the retained
  endpoint and the exit.
\<close>

definition run_worker ::
  "platform \<Rightarrow> 'g engine \<Rightarrow> loop_event list \<Rightarrow> 'g log_helper_ctx \<Rightarrow>
     (phase \<times> 'g log_helper_ctx) option" where
  "run_worker P E evs ctx =
     (let c1 = act Lock_start_mtx ctx;
          c2 = act Srv_send_command c1;
          c3 = act Unlock_start_mtx c2;
          c4 = act Event_base_loop c3
      in case event_base_loop P E evs c4 of
           None \<Rightarrow> None
         | Some (ph, c5) \<Rightarrow>
             if ph = Stopped then
               let c6 = act (Close_pair 0) c5;
                   c7 = act Block_signals c6;
                   c8 = act Log_close c7
               in Some (Stopped, act (Exit EXIT_SUCCESS) c8)
             else Some (ph, c5))"

text \<open>
  \<open>start_log_helper\<close>. The context takes the configuration, the scripts and the Lua state
  of the worker (\<open>rspamd_prepare_worker\<close>, the framework's own setup that yields the event
  base, leaves no trace here). \<open>r\<close> starts as -1 and is overwritten by the first
  \<open>socketpair\<close> only where \<open>HAVE_SOCK_SEQPACKET\<close> is defined; the second \<open>socketpair\<close> is
  the right operand of \<open>&&\<close> and runs only when \<open>r == -1\<close>.
\<close>

definition start_log_helper ::
  "platform \<Rightarrow> 'g engine \<Rightarrow> os \<Rightarrow> loop_event list \<Rightarrow> 'g rspamd_worker \<Rightarrow>
     (phase \<times> 'g log_helper_ctx) option" where
  "start_log_helper P E sys evs worker =
     (let ctx = \<lparr>cfg = srv_cfg worker, scripts = cf_scripts worker, L = cfg_lua_state worker,
                 log_ev_added = False, logger = [], actions = []\<rparr>;
          (r, c1) = (if have_sock_seqpacket P
                     then (socketpair_rc sys SOCK_SEQPACKET, act (Socketpair SOCK_SEQPACKET) ctx)
                     else (- 1, ctx))
      in if r = - 1 then
           let c2 = act (Socketpair SOCK_DGRAM) c1
           in if socketpair_rc sys SOCK_DGRAM = - 1 then
                Some (Stopped,
                      act (Exit EXIT_SUCCESS) (msg (Err_socketpair (socketpair_errno sys SOCK_DGRAM)) c2))
              else run_worker P E evs c2
         else run_worker P E evs c1)"

subsection \<open>What a handler receives, and what the log shows\<close>

text \<open>
  The frames that pass both checks of \<open>rspamd_log_helper_read\<close>: at least a header was
  received, and the announced count is the number of whole results after the header.
\<close>

definition accepted :: "platform \<Rightarrow> byte list \<Rightarrow> bool" where
  "accepted P d \<longleftrightarrow>
     header_size P \<le> length d \<and> length d \<le> buf_size \<and>
     unat (load_u32 (byte_order P) d 0) = (length d - header_size P) div symbol_result_size P"

text \<open>Result \<open>i\<close> of a frame as a handler sees it, and the sequence of the first \<open>n\<close> results
  with their one-based keys.\<close>

definition symbol_entry :: "platform \<Rightarrow> byte list \<Rightarrow> nat \<Rightarrow> lval" where
  "symbol_entry P sm i =
     LTable [(1, LNum (Integral (sint (sm_result_id P sm i)))),
             (2, LNum (Double (sm_result_score P sm i)))]"

definition symbol_results :: "platform \<Rightarrow> byte list \<Rightarrow> nat \<Rightarrow> (int \<times> lval) list" where
  "symbol_results P sm n = map (\<lambda>i. (int i + 1, symbol_entry P sm i)) [0 ..< n]"

text \<open>The five positional arguments of a handler for frame \<open>sm\<close> with announced count \<open>n\<close>.\<close>

definition handler_args :: "platform \<Rightarrow> nat \<Rightarrow> byte list \<Rightarrow> 32 word \<Rightarrow> lval list" where
  "handler_args P c sm n =
     [LNum (Double (sm_score P sm)),
      LNum (Double (sm_required_score P sm)),
      LTable (symbol_results P sm (unat n)),
      LUserdata (Some ''rspamd{config}'') (Some c),
      LNum (Integral (uint (sm_settings_id P sm)))]"

text \<open>The invocations that \<open>scs\<close>, in this order, owe to one frame.\<close>

definition invocations ::
  "platform \<Rightarrow> 'g log_helper_ctx \<Rightarrow> int list \<Rightarrow> byte list \<Rightarrow> (lval \<times> lval list) list" where
  "invocations P ctx scs d =
     map (\<lambda>c. (registry_get (L ctx) c, handler_args P (cfg ctx) d (load_u32 (byte_order P) d 0))) scs"

text \<open>A recorded protected call without its outcome, and the log lines of the failed ones.\<close>

fun call_target :: "lval \<times> lval list \<times> lval option \<Rightarrow> lval \<times> lval list" where
  "call_target (f, args, res) = (f, args)"

fun error_line :: "'g engine \<Rightarrow> lval \<times> lval list \<times> lval option \<Rightarrow> log_msg list" where
  "error_line E (f, args, None) = []"
| "error_line E (f, args, Some err) = [Err_handler (tostring E err)]"

definition error_lines ::
  "'g engine \<Rightarrow> (lval \<times> lval list \<times> lval option) list \<Rightarrow> log_msg list" where
  "error_lines E calls = concat (map (error_line E) calls)"

text \<open>The effect of one pass through the body of \<open>DL_FOREACH\<close> in closed form
  (\<open>call_script_eq\<close> below).\<close>

definition after_call ::
  "platform \<Rightarrow> 'g engine \<Rightarrow> byte list \<Rightarrow> 32 word \<Rightarrow> int \<Rightarrow>
     'g log_helper_ctx \<Rightarrow> 'g log_helper_ctx" where
  "after_call P E sm n cbref ctx =
     (let f = registry_get (L ctx) cbref;
          args = handler_args P (cfg ctx) sm n;
          (res, g) = run_fn E (globals (L ctx)) f args
      in ctx\<lparr>L := (L ctx)\<lparr>globals := g, pcalls := pcalls (L ctx) @ [(f, args, res)]\<rparr>,
             logger := logger ctx @ error_line E (f, args, res)\<rparr>)"

text \<open>
  The dispatch contract of the spec, \<open>for each handler in registry, invoke (handler, event)\<close>:
  every call in the list is made, in order, on the scripts' state that the calls before it
  left, whatever their outcome; the result is the record of the calls and the final state.
\<close>

fun invoke_all ::
  "'g engine \<Rightarrow> 'g \<Rightarrow> (lval \<times> lval list) list \<Rightarrow> (lval \<times> lval list \<times> lval option) list \<times> 'g" where
  "invoke_all E g [] = ([], g)"
| "invoke_all E g ((f, args) # cs) =
     (let (res, g1) = run_fn E g f args;
          (rest, g2) = invoke_all E g1 cs
      in ((f, args, res) # rest, g2))"

text \<open>The \<open>socketpair\<close> attempts among the actions of a run.\<close>

fun is_socketpair :: "action \<Rightarrow> bool" where
  "is_socketpair (Socketpair t) = True"
| "is_socketpair _ = False"

subsection \<open>A concrete platform and concrete frames\<close>

text \<open>
  A little-endian platform with 8-byte alignment and the field order of the spec: the
  count at 0, the scores at 8 and 16, the settings identifier at 24, 32 bytes in all; a
  result is 16 bytes, the identifier at 0 and the score at 8. The first of two registered
  callbacks always raises an error. Every header below carries the score 5.0, the required
  score 15.0 and the settings identifier 3; \<open>ex_result k\<close> is the identifier \<open>k\<close> with the
  score 1.0, and the second result of \<open>ex_frame2\<close> is the identifier 9 with the score 2.0.
\<close>

definition ex_P :: platform where
  "ex_P = \<lparr>byte_order = LittleEndian, have_sock_seqpacket = True, header_size = 32,
           symbol_result_size = 16, score_off = 8, required_score_off = 16,
           settings_id_off = 24, res_id_off = 0, res_score_off = 8\<rparr>"

definition ex_E :: "nat engine" where
  "ex_E = \<lparr>run_fn = (\<lambda>g f args. (if f = LFunction 1 then Some (LStr ''boom'') else None, Suc g)),
           fmt_number = (\<lambda>x. ''0'')\<rparr>"

definition ex_lua :: "nat lua_State" where
  "ex_lua = \<lparr>stack = [], registry = [(10, LFunction 1), (11, LFunction 2)], globals = 0,
             pcalls = []\<rparr>"

definition ex_ctx :: "nat log_helper_ctx" where
  "ex_ctx = \<lparr>cfg = 7, scripts = [10, 11], L = ex_lua, log_ev_added = True, logger = [],
             actions = []\<rparr>"

definition ex_worker :: "nat rspamd_worker" where
  "ex_worker = \<lparr>srv_cfg = 7, cf_scripts = [10, 11], cfg_lua_state = ex_lua\<rparr>"

definition ex_header :: "byte \<Rightarrow> byte list" where
  "ex_header n = [n, 0, 0, 0, 0, 0, 0, 0] @ [0, 0, 0, 0, 0, 0, 20, 64] @
                 [0, 0, 0, 0, 0, 0, 46, 64] @ [3, 0, 0, 0, 0, 0, 0, 0]"

definition ex_result :: "byte \<Rightarrow> byte list" where
  "ex_result k = [k, 0, 0, 0, 0, 0, 0, 0] @ [0, 0, 0, 0, 0, 0, 240, 63]"

text \<open>No symbols; two symbols; one symbol and one stray byte; three announced, two present.\<close>

definition ex_frame0 :: "byte list" where
  "ex_frame0 = ex_header 0"

definition ex_frame2 :: "byte list" where
  "ex_frame2 = ex_header 2 @ ex_result 5 @
               ([9, 0, 0, 0, 0, 0, 0, 0] @ [0, 0, 0, 0, 0, 0, 0, 64])"

definition ex_frame_stray :: "byte list" where
  "ex_frame_stray = ex_header 1 @ ex_result 5 @ [0]"

definition ex_frame_short :: "byte list" where
  "ex_frame_short = ex_header 3 @ ex_result 5 @ ex_result 9"

text \<open>An event of 64 results, 1056 bytes on the wire.\<close>

definition ex_frame_big :: "byte list" where
  "ex_frame_big = ex_header 64 @ concat (replicate 64 (ex_result 5))"

definition ex_os_none :: os where
  "ex_os_none = \<lparr>socketpair_rc = (\<lambda>t. - 1), socketpair_errno = (\<lambda>t. 97)\<rparr>"

definition ex_os_dgram :: os where
  "ex_os_dgram = \<lparr>socketpair_rc = (\<lambda>t. if t = SOCK_DGRAM then 0 else - 1),
                  socketpair_errno = (\<lambda>t. 93)\<rparr>"

section \<open>Lemmas\<close>

subsection \<open>The table of results and one protected call\<close>

lemma tbl_set_fresh:
  "v \<noteq> LNil \<Longrightarrow> k \<notin> fst ` set kvs \<Longrightarrow> tbl_set k v kvs = kvs @ [(k, v)]"
  by (induction kvs) auto

lemma foreach_append:
  "foreach f (xs @ ys) s = (case foreach f xs s of None \<Rightarrow> None | Some s' \<Rightarrow> foreach f ys s')"
  by (induction xs arbitrary: s) (auto split: option.splits)

lemma push_symbol_result_eq:
  assumes "stack ls = LTable kvs # rest"
  shows "push_symbol_result P sm i ls =
         Some (ls\<lparr>stack := LTable (tbl_set (int i + 1) (symbol_entry P sm i) kvs) # rest\<rparr>)"
  using assms
  by (simp add: push_symbol_result_def lua_createtable_def lua_pushnumber_def push_def
      lua_rawseti_def symbol_entry_def)

lemma symbol_results_Suc:
  "symbol_results P sm (Suc n) = symbol_results P sm n @ [(int n + 1, symbol_entry P sm n)]"
  by (simp add: symbol_results_def)

lemma symbol_results_keys: "fst ` set (symbol_results P sm n) = (\<lambda>i. int i + 1) ` {0 ..< n}"
  by (auto simp: symbol_results_def image_iff)

lemma push_symbol_results_eq:
  assumes "stack ls = LTable [] # rest"
  shows "foreach (push_symbol_result P sm) [0 ..< n] ls =
         Some (ls\<lparr>stack := LTable (symbol_results P sm n) # rest\<rparr>)"
proof (induction n)
  case 0
  show ?case using assms by (simp add: symbol_results_def)
next
  case (Suc n)
  have fresh: "int n + 1 \<notin> fst ` set (symbol_results P sm n)"
    by (auto simp: symbol_results_keys)
  have entry: "symbol_entry P sm n \<noteq> LNil"
    by (simp add: symbol_entry_def)
  show ?case
    by (simp add: foreach_append Suc push_symbol_result_eq
        tbl_set_fresh [OF entry fresh] symbol_results_Suc)
qed

lemma call_script_eq: "call_script P E sm n cbref ctx = Some (after_call P E sm n cbref ctx)"
proof -
  have st: "stack (lua_createtable (lua_pushnumber y (lua_pushnumber x (lua_rawgeti_registry cbref (L ctx)))))
      = LTable [] # LNum y # LNum x # registry_get (L ctx) cbref # stack (L ctx)" for x y
    by (simp add: lua_createtable_def lua_pushnumber_def lua_rawgeti_registry_def push_def)
  show ?thesis
    unfolding call_script_def Let_def
    apply (subst push_symbol_results_eq [OF st])
    apply (simp add: lua_newuserdata_def store_userdata_def rspamd_lua_setclass_def push_def
        lua_pushnumber_def lua_pcall_def Let_def after_call_def handler_args_def
        lua_createtable_def lua_rawgeti_registry_def LUA_ERRRUN_def
        lua_tostring_def lua_pop_def msg_def
        split: prod.splits option.splits)
    done
qed

lemma foreach_call_script:
  "foreach (call_script P E sm n) scs ctx = Some (fold (after_call P E sm n) scs ctx)"
  by (induction scs arbitrary: ctx) (simp_all add: call_script_eq)

lemma after_call_fields:
  "cfg (after_call P E sm n c ctx) = cfg ctx"
  "scripts (after_call P E sm n c ctx) = scripts ctx"
  "log_ev_added (after_call P E sm n c ctx) = log_ev_added ctx"
  "actions (after_call P E sm n c ctx) = actions ctx"
  "stack (L (after_call P E sm n c ctx)) = stack (L ctx)"
  "registry (L (after_call P E sm n c ctx)) = registry (L ctx)"
  by (simp_all add: after_call_def Let_def split: prod.splits)

lemma after_call_registry_get:
  "registry_get (L (after_call P E sm n c ctx)) = registry_get (L ctx)"
  by (simp add: registry_get_def after_call_fields fun_eq_iff)

lemma after_call_trace:
  "\<exists>call. call_target call = (registry_get (L ctx) c, handler_args P (cfg ctx) sm n) \<and>
     pcalls (L (after_call P E sm n c ctx)) = pcalls (L ctx) @ [call] \<and>
     logger (after_call P E sm n c ctx) = logger ctx @ error_line E call"
  by (simp add: after_call_def Let_def split: prod.splits)

lemma fold_after_call_fields:
  "cfg (fold (after_call P E sm n) scs ctx) = cfg ctx"
  "scripts (fold (after_call P E sm n) scs ctx) = scripts ctx"
  "log_ev_added (fold (after_call P E sm n) scs ctx) = log_ev_added ctx"
  "actions (fold (after_call P E sm n) scs ctx) = actions ctx"
  "stack (L (fold (after_call P E sm n) scs ctx)) = stack (L ctx)"
  "registry (L (fold (after_call P E sm n) scs ctx)) = registry (L ctx)"
  by (induction scs arbitrary: ctx) (simp_all add: after_call_fields)

lemma fold_after_call_trace:
  "\<exists>new. pcalls (L (fold (after_call P E sm n) scs ctx)) = pcalls (L ctx) @ new \<and>
     map call_target new =
       map (\<lambda>c. (registry_get (L ctx) c, handler_args P (cfg ctx) sm n)) scs \<and>
     logger (fold (after_call P E sm n) scs ctx) = logger ctx @ error_lines E new"
proof (induction scs arbitrary: ctx)
  case Nil
  show ?case by (simp add: error_lines_def)
next
  case (Cons c scs)
  obtain call where call:
    "call_target call = (registry_get (L ctx) c, handler_args P (cfg ctx) sm n)"
    "pcalls (L (after_call P E sm n c ctx)) = pcalls (L ctx) @ [call]"
    "logger (after_call P E sm n c ctx) = logger ctx @ error_line E call"
    using after_call_trace by blast
  obtain new where new:
    "pcalls (L (fold (after_call P E sm n) scs (after_call P E sm n c ctx))) =
       pcalls (L (after_call P E sm n c ctx)) @ new"
    "map call_target new =
       map (\<lambda>c'. (registry_get (L (after_call P E sm n c ctx)) c',
                  handler_args P (cfg (after_call P E sm n c ctx)) sm n)) scs"
    "logger (fold (after_call P E sm n) scs (after_call P E sm n c ctx)) =
       logger (after_call P E sm n c ctx) @ error_lines E new"
    using Cons.IH by blast
  show ?case
    apply (rule exI [of _ "call # new"])
    apply (simp add: call new after_call_registry_get after_call_fields error_lines_def)
    done
qed

subsection \<open>The read callback case by case\<close>

lemma load_u32_take: "4 \<le> k \<Longrightarrow> load_u32 e (take k d) 0 = load_u32 e d 0"
  by (simp add: load_u32_def min_def)

text \<open>
  The loads in terms of the bytes alone: the value of a field is the sum of its bytes, each
  weighted by the power of 256 of its place, the first byte lowest on a little-endian
  platform and highest on a big-endian one.
\<close>

lemma le_nat_horner: "le_nat bs = horner_sum unat 256 bs"
  by (induction bs) simp_all

lemma bytes_nat_horner:
  "bytes_nat e bs = horner_sum unat 256 (case e of LittleEndian \<Rightarrow> bs | BigEndian \<Rightarrow> rev bs)"
  by (cases e) (simp_all add: bytes_nat_def le_nat_horner)

lemma load_u32_horner:
  "load_u32 e d off =
     of_nat (horner_sum unat 256
       (case e of LittleEndian \<Rightarrow> take 4 (drop off d) | BigEndian \<Rightarrow> rev (take 4 (drop off d))))"
  by (cases e) (simp_all add: load_u32_def bytes_nat_horner)

lemma load_f64_horner:
  "load_f64 e d off =
     of_nat (horner_sum unat 256
       (case e of LittleEndian \<Rightarrow> take 8 (drop off d) | BigEndian \<Rightarrow> rev (take 8 (drop off d))))"
  by (cases e) (simp_all add: load_f64_def bytes_nat_horner)

lemma read_failing:
  "rspamd_log_helper_read P E (Failing e) ctx = Some (msg (Warn_read_error e) ctx)"
  by (simp add: rspamd_log_helper_read_def)

lemma read_short:
  "length d < header_size P \<Longrightarrow> rspamd_log_helper_read P E (Pending d) ctx = Some ctx"
  by (simp add: rspamd_log_helper_read_def)

lemma read_bad_length:
  assumes "header_size P \<le> length d" and "length d \<le> buf_size"
    and "unat (load_u32 (byte_order P) d 0) \<noteq> (length d - header_size P) div symbol_result_size P"
  shows "rspamd_log_helper_read P E (Pending d) ctx =
         Some (msg (Warn_bad_length (load_u32 (byte_order P) d 0)
                 ((length d - header_size P) div symbol_result_size P)) ctx)"
  using assms by (simp add: rspamd_log_helper_read_def Let_def min_def)

lemma read_accepted:
  assumes "accepted P d"
  shows "rspamd_log_helper_read P E (Pending d) ctx =
         Some (fold (after_call P E d (load_u32 (byte_order P) d 0)) (scripts ctx) ctx)"
  using assms
  by (simp add: rspamd_log_helper_read_def accepted_def Let_def min_def foreach_call_script)

lemma read_truncates:
  "rspamd_log_helper_read P E (Pending d) ctx =
   rspamd_log_helper_read P E (Pending (take buf_size d)) ctx"
  by (simp add: rspamd_log_helper_read_def)

lemma read_preserves:
  assumes "rspamd_log_helper_read P E inp ctx = Some ctx'"
  shows "stack (L ctx') = stack (L ctx)" and "registry (L ctx') = registry (L ctx)"
    and "cfg ctx' = cfg ctx" and "scripts ctx' = scripts ctx"
    and "log_ev_added ctx' = log_ev_added ctx" and "actions ctx' = actions ctx"
  using assms
  by (auto simp: rspamd_log_helper_read_def Let_def foreach_call_script fold_after_call_fields
      msg_def split: prod.splits if_splits)

lemma read_total: "\<exists>ctx'. rspamd_log_helper_read P E inp ctx = Some ctx'"
  by (simp add: rspamd_log_helper_read_def Let_def foreach_call_script split: prod.splits)

lemma read_accepted_trace:
  assumes "accepted P d"
  shows "\<exists>ctx' new. rspamd_log_helper_read P E (Pending d) ctx = Some ctx' \<and>
     pcalls (L ctx') = pcalls (L ctx) @ new \<and>
     map call_target new = invocations P ctx (scripts ctx) d \<and>
     logger ctx' = logger ctx @ error_lines E new"
  using fold_after_call_trace [of P E d "load_u32 (byte_order P) d 0" "scripts ctx" ctx]
  by (auto simp: read_accepted [OF assms] invocations_def)


lemma symbol_results_length: "length (symbol_results P sm n) = n"
  by (simp add: symbol_results_def)

lemma symbol_results_nth:
  "i < n \<Longrightarrow> symbol_results P sm n ! i = (int i + 1, symbol_entry P sm i)"
  by (simp add: symbol_results_def)

lemma exact_length_accepted:
  assumes "length d = header_size P + unat (load_u32 (byte_order P) d 0) * symbol_result_size P"
    and "length d \<le> buf_size" and "0 < symbol_result_size P"
  shows "accepted P d"
  using assms by (simp add: accepted_def)

lemma after_call_step:
  "pcalls (L (after_call P E sm n c ctx)) =
     pcalls (L ctx) @
       [(registry_get (L ctx) c, handler_args P (cfg ctx) sm n,
         fst (run_fn E (globals (L ctx)) (registry_get (L ctx) c) (handler_args P (cfg ctx) sm n)))]"
  "globals (L (after_call P E sm n c ctx)) =
     snd (run_fn E (globals (L ctx)) (registry_get (L ctx) c) (handler_args P (cfg ctx) sm n))"
  by (simp_all add: after_call_def Let_def split: prod.splits)

lemma fold_after_call_invoke_all:
  "pcalls (L (fold (after_call P E sm n) scs ctx)) =
     pcalls (L ctx) @
       fst (invoke_all E (globals (L ctx))
              (map (\<lambda>c. (registry_get (L ctx) c, handler_args P (cfg ctx) sm n)) scs)) \<and>
   globals (L (fold (after_call P E sm n) scs ctx)) =
     snd (invoke_all E (globals (L ctx))
              (map (\<lambda>c. (registry_get (L ctx) c, handler_args P (cfg ctx) sm n)) scs))"
proof (induction scs arbitrary: ctx)
  case Nil
  show ?case by simp
next
  case (Cons c scs)
  show ?case
    by (simp add: Cons.IH [of "after_call P E sm n c ctx"] after_call_step
        after_call_registry_get after_call_fields Let_def split: prod.splits)
qed

lemma read_accepted_invoke_all:
  assumes "accepted P d" and "rspamd_log_helper_read P E (Pending d) ctx = Some ctx'"
  shows "pcalls (L ctx') =
           pcalls (L ctx) @ fst (invoke_all E (globals (L ctx)) (invocations P ctx (scripts ctx) d))"
    and "globals (L ctx') = snd (invoke_all E (globals (L ctx)) (invocations P ctx (scripts ctx) d))"
  using assms(2) fold_after_call_invoke_all [of P E d "load_u32 (byte_order P) d 0" "scripts ctx" ctx]
  by (simp_all add: read_accepted [OF assms(1)] invocations_def)

lemma error_line_mem:
  assumes "k < length new" and "snd (snd (new ! k)) = Some err"
  shows "Err_handler (tostring E err) \<in> set (error_lines E new)"
proof -
  obtain f args where "new ! k = (f, args, Some err)"
    using assms(2) by (cases "new ! k") auto
  then have "(f, args, Some err) \<in> set new"
    using assms(1) nth_mem by fastforce
  then show ?thesis
    by (force simp: error_lines_def)
qed

subsection \<open>The event loop and the start function\<close>

lemma reply_handler_fields:
  "stack (L (rspamd_log_helper_reply_handler ctx)) = stack (L ctx)"
  "log_ev_added (rspamd_log_helper_reply_handler ctx)"
  "filter is_socketpair (actions (rspamd_log_helper_reply_handler ctx)) =
     filter is_socketpair (actions ctx)"
  "Srv_send_command \<in> set (actions (rspamd_log_helper_reply_handler ctx)) \<longleftrightarrow>
     Srv_send_command \<in> set (actions ctx)"
  by (simp_all add: rspamd_log_helper_reply_handler_def act_def msg_def Let_def)

lemma loop_total: "\<exists>ph ctx'. event_base_loop P E evs ctx = Some (ph, ctx')"
proof (induction evs arbitrary: ctx)
  case Nil
  show ?case by simp
next
  case (Cons ev evs)
  show ?case
  proof (cases ev)
    case Srv_reply
    then show ?thesis using Cons.IH by simp
  next
    case (Read_ready inp)
    obtain ctx1 where "rspamd_log_helper_read P E inp ctx = Some ctx1"
      using read_total by blast
    then show ?thesis using Read_ready Cons.IH by simp
  next
    case Term_signal
    then show ?thesis by simp
  qed
qed

lemma loop_read_step:
  assumes "log_ev_added ctx" and "rspamd_log_helper_read P E inp ctx = Some ctx'"
  shows "event_base_loop P E (Read_ready inp # evs) ctx = event_base_loop P E evs ctx'"
  using assms by simp

lemma loop_stopped_iff:
  "(\<exists>ctx'. event_base_loop P E evs ctx = Some (Stopped, ctx')) \<longleftrightarrow> Term_signal \<in> set evs"
proof (induction evs arbitrary: ctx)
  case Nil
  show ?case by simp
next
  case (Cons ev evs)
  show ?case
  proof (cases ev)
    case Srv_reply
    then show ?thesis using Cons.IH by simp
  next
    case (Read_ready inp)
    obtain ctx1 where "rspamd_log_helper_read P E inp ctx = Some ctx1"
      using read_total by blast
    then show ?thesis using Read_ready Cons.IH by simp
  next
    case Term_signal
    then show ?thesis by simp
  qed
qed

lemma loop_actions:
  assumes "event_base_loop P E evs ctx = Some (ph, ctx')"
  shows "filter is_socketpair (actions ctx') = filter is_socketpair (actions ctx) \<and>
         (Srv_send_command \<in> set (actions ctx') \<longleftrightarrow> Srv_send_command \<in> set (actions ctx))"
  using assms
proof (induction evs arbitrary: ctx)
  case Nil
  then show ?case by (simp split: if_splits)
next
  case (Cons ev evs)
  show ?case
  proof (cases ev)
    case Srv_reply
    then show ?thesis using Cons.IH [of "rspamd_log_helper_reply_handler ctx"] Cons.prems
      by (simp add: reply_handler_fields)
  next
    case (Read_ready inp)
    obtain ctx1 where rd: "rspamd_log_helper_read P E inp ctx = Some ctx1"
      using read_total by blast
    show ?thesis
    proof (cases "log_ev_added ctx")
      case True
      then show ?thesis
        using Read_ready Cons.IH [of ctx1] Cons.prems rd read_preserves(6) [OF rd] by simp
    next
      case False
      then show ?thesis using Read_ready Cons.IH [of ctx] Cons.prems by simp
    qed
  next
    case Term_signal
    then show ?thesis using Cons.prems by simp
  qed
qed




lemma run_worker_actions:
  "\<exists>ph ctx'. run_worker P E evs ctx = Some (ph, ctx') \<and>
     filter is_socketpair (actions ctx') = filter is_socketpair (actions ctx) \<and>
     Srv_send_command \<in> set (actions ctx')"
proof -
  let ?c4 = "act Event_base_loop (act Unlock_start_mtx (act Srv_send_command (act Lock_start_mtx ctx)))"
  obtain ph c5 where lp: "event_base_loop P E evs ?c4 = Some (ph, c5)"
    using loop_total by blast
  have c4: "filter is_socketpair (actions ?c4) = filter is_socketpair (actions ctx)"
    "Srv_send_command \<in> set (actions ?c4)"
    by (simp_all add: act_def)
  from loop_actions [OF lp] c4 have c5:
    "filter is_socketpair (actions c5) = filter is_socketpair (actions ctx)"
    "Srv_send_command \<in> set (actions c5)"
    by simp_all
  show ?thesis
    using lp c5 by (simp add: run_worker_def Let_def act_def)
qed

subsection \<open>The concrete frames\<close>

lemma ex_P_fields:
  "byte_order ex_P = LittleEndian" "header_size ex_P = 32" "symbol_result_size ex_P = 16"
  "have_sock_seqpacket ex_P"
  by (simp_all add: ex_P_def)

lemma ex_P_offsets:
  "score_off ex_P = 8" "required_score_off ex_P = 16" "settings_id_off ex_P = 24"
  "res_id_off ex_P = 0" "res_score_off ex_P = 8"
  by (simp_all add: ex_P_def)

lemma ex_frame0_bytes:
  "horner_sum unat 256 (take 4 ex_frame0) = 0"
  "horner_sum unat 256 (take 8 (drop 8 ex_frame0)) = 0x4014000000000000"
  "horner_sum unat 256 (take 8 (drop 16 ex_frame0)) = 0x402E000000000000"
  "horner_sum unat 256 (take 4 (drop 24 ex_frame0)) = 3"
  by (simp_all add: ex_frame0_def ex_header_def)

lemma ex_frame2_bytes:
  "horner_sum unat 256 (take 4 ex_frame2) = 2"
  "horner_sum unat 256 (take 4 (drop 32 ex_frame2)) = 5"
  "horner_sum unat 256 (take 8 (drop 40 ex_frame2)) = 0x3FF0000000000000"
  "horner_sum unat 256 (take 4 (drop 48 ex_frame2)) = 9"
  "horner_sum unat 256 (take 8 (drop 56 ex_frame2)) = 0x4000000000000000"
  by (simp_all add: ex_frame2_def ex_header_def ex_result_def)

lemma ex_ctx_fields:
  "scripts ex_ctx = [10, 11]" "logger ex_ctx = []" "log_ev_added ex_ctx" "cfg ex_ctx = 7"
  "L ex_ctx = ex_lua" "actions ex_ctx = []"
  by (simp_all add: ex_ctx_def)

lemma ex_load_count: "load_u32 LittleEndian (ex_header n @ rest) 0 = ucast n"
  by (simp add: load_u32_def ex_header_def bytes_nat_def)

lemma ex_counts:
  "load_u32 LittleEndian ex_frame0 0 = 0"
  "load_u32 LittleEndian ex_frame2 0 = 2"
  "load_u32 LittleEndian ex_frame_stray 0 = 1"
  "load_u32 LittleEndian ex_frame_short 0 = 3"
  "load_u32 LittleEndian ex_frame_big 0 = 64"
  using ex_load_count [of 0 "[]"]
  by (simp_all add: ex_frame0_def ex_frame2_def ex_frame_stray_def
      ex_frame_short_def ex_frame_big_def ex_load_count)

lemma ex_lengths:
  "length ex_frame0 = 32" "length ex_frame2 = 64" "length ex_frame_stray = 49"
  "length ex_frame_short = 64" "length ex_frame_big = 1056"
  by (simp_all add: ex_frame0_def ex_frame2_def ex_frame_stray_def ex_frame_short_def
      ex_frame_big_def ex_header_def ex_result_def length_concat sum_list_replicate)

lemma ex_dispatch:
  "fold (after_call ex_P ex_E d n) [10, 11] ex_ctx =
   ex_ctx\<lparr>L := ex_lua\<lparr>globals := 2,
                       pcalls := [(LFunction 1, handler_args ex_P 7 d n, Some (LStr ''boom'')),
                                  (LFunction 2, handler_args ex_P 7 d n, None)]\<rparr>,
          logger := [Err_handler (Some ''boom'')]\<rparr>"
  by (simp add: after_call_def registry_get_def ex_ctx_def ex_lua_def ex_E_def tostring_def
      Let_def numeral_2_eq_2)

lemma ex_accepted:
  "accepted ex_P ex_frame0" "accepted ex_P ex_frame2" "accepted ex_P ex_frame_stray"
  by (simp_all add: accepted_def ex_counts ex_lengths ex_P_fields buf_size_def)

lemma ex_read_accepted:
  assumes "accepted ex_P d"
  shows "rspamd_log_helper_read ex_P ex_E (Pending d) ex_ctx =
     Some (ex_ctx\<lparr>L := ex_lua\<lparr>globals := 2,
               pcalls := [(LFunction 1, handler_args ex_P 7 d (load_u32 (byte_order ex_P) d 0),
                           Some (LStr ''boom'')),
                          (LFunction 2, handler_args ex_P 7 d (load_u32 (byte_order ex_P) d 0),
                           None)]\<rparr>,
             logger := [Err_handler (Some ''boom'')]\<rparr>)"
  unfolding read_accepted [OF assms] ex_ctx_fields ex_dispatch ..

text \<open>
  Where the ordered mode fails and the datagram mode works, the worker goes on with the
  datagram pair: it sends its command and enters the event loop.
\<close>

lemma ex_fallback_to_dgram:
  "start_log_helper ex_P ex_E ex_os_dgram [] ex_worker =
     Some (WaitingForRegistration,
       \<lparr>cfg = 7, scripts = [10, 11], L = ex_lua, log_ev_added = False, logger = [],
        actions = [Socketpair SOCK_SEQPACKET, Socketpair SOCK_DGRAM, Lock_start_mtx,
                   Srv_send_command, Unlock_start_mtx, Event_base_loop]\<rparr>)"
  by (simp add: start_log_helper_def run_worker_def ex_P_def ex_os_dgram_def ex_worker_def
      act_def Let_def)

section \<open>The claims\<close>

subsection \<open>C1: a count that does not match the length\<close>

text \<open>
  The check divides and drops the remainder, so a frame with stray bytes after its last
  result, fewer than one result, passes it: here 49 bytes, a header of 32, one result of
  16 and one byte more. Both callbacks are called.
\<close>

theorem stray_bytes_accepted:
  "header_size ex_P \<le> length ex_frame_stray \<and>
   (length ex_frame_stray - header_size ex_P) mod symbol_result_size ex_P = 1 \<and>
   rspamd_log_helper_read ex_P ex_E (Pending ex_frame_stray) ex_ctx =
     Some (ex_ctx\<lparr>L := ex_lua\<lparr>globals := 2,
               pcalls := [(LFunction 1, handler_args ex_P 7 ex_frame_stray 1, Some (LStr ''boom'')),
                          (LFunction 2, handler_args ex_P 7 ex_frame_stray 1, None)]\<rparr>,
             logger := [Err_handler (Some ''boom'')]\<rparr>)"
  using ex_read_accepted [OF ex_accepted(3)]
  by (simp add: ex_counts ex_lengths ex_P_fields)

text \<open>
  C1, as the code has it: for every received frame of at least \<open>header_size\<close> bytes, if
  the number of whole results after the header, \<open>(length - header_size) div
  symbol_result_size\<close>, differs from the announced count, then the frame is discarded: a
  warning with the announced and the available count is logged, no handler is invoked,
  and nothing else in the worker's state changes.
\<close>

theorem count_mismatch_discarded:
  assumes "header_size P \<le> length d" and "length d \<le> buf_size"
    and "(length d - header_size P) div symbol_result_size P \<noteq> unat (load_u32 (byte_order P) d 0)"
  shows "rspamd_log_helper_read P E (Pending d) ctx =
         Some (ctx\<lparr>logger := logger ctx @
                 [Warn_bad_length (load_u32 (byte_order P) d 0)
                    ((length d - header_size P) div symbol_result_size P)]\<rparr>)"
  using assms by (simp add: read_bad_length msg_def)

theorem count_mismatch_discarded_witness:
  "header_size ex_P \<le> length ex_frame_short \<and> length ex_frame_short \<le> buf_size \<and>
   (length ex_frame_short - header_size ex_P) div symbol_result_size ex_P \<noteq>
     unat (load_u32 (byte_order ex_P) ex_frame_short 0) \<and>
   rspamd_log_helper_read ex_P ex_E (Pending ex_frame_short) ex_ctx =
     Some (ex_ctx\<lparr>logger := [Warn_bad_length 3 2]\<rparr>)"
proof -
  note len = ex_lengths(4) and n = ex_counts(4)
  have h1: "header_size ex_P \<le> length ex_frame_short"
    by (simp add: len ex_P_def)
  have h2: "length ex_frame_short \<le> buf_size"
    by (simp add: len buf_size_def)
  have h3: "(length ex_frame_short - header_size ex_P) div symbol_result_size ex_P \<noteq>
     unat (load_u32 (byte_order ex_P) ex_frame_short 0)"
    by (simp add: len n ex_P_fields)
  have lg: "logger ex_ctx = []"
    by (simp add: ex_ctx_def)
  have q: "(length ex_frame_short - header_size ex_P) div symbol_result_size ex_P = 2"
    by (simp add: len ex_P_def)
  show ?thesis
    using count_mismatch_discarded [OF h1 h2 h3, of ex_E ex_ctx] h1 h2 h3
    by (simp add: n lg len ex_P_fields)
qed

subsection \<open>C2: a frame of exactly the announced length\<close>

text \<open>
  C2: for every frame whose received length is \<open>header_size\<close> plus the announced count
  \<open>n\<close> times \<open>symbol_result_size\<close>, the callback returns, every registered handler is
  called once, and the third argument of each call is a table of exactly \<open>n\<close> entries,
  entry \<open>i\<close> under key \<open>i + 1\<close> holding the identifier and the score that the bytes of
  result \<open>i\<close> of the frame spell out (\<open>field off len\<close> is the number that the \<open>len\<close> bytes
  at offset \<open>off\<close> of the frame are in the byte order of the platform).
\<close>

theorem exact_frame_results_in_order:
  fixes P :: platform and d :: "byte list" and n :: "32 word"
  defines "field \<equiv> \<lambda>off len. horner_sum unat 256
     (case byte_order P of LittleEndian \<Rightarrow> take len (drop off d)
      | BigEndian \<Rightarrow> rev (take len (drop off d)))"
  defines "entry \<equiv> \<lambda>i.
     LTable [(1, LNum (Integral (sint (of_nat
                (field (header_size P + i * symbol_result_size P + res_id_off P) 4) :: 32 word)))),
             (2, LNum (Double (of_nat
                (field (header_size P + i * symbol_result_size P + res_score_off P) 8))))]"
  assumes "length d = header_size P + unat n * symbol_result_size P"
    and "length d \<le> buf_size"
    and "of_nat (field 0 4) = n"
    and "0 < symbol_result_size P"
  shows "\<exists>ctx' new. rspamd_log_helper_read P E (Pending d) ctx = Some ctx' \<and>
     pcalls (L ctx') = pcalls (L ctx) @ new \<and>
     length new = length (scripts ctx) \<and>
     (\<forall>k < length new. \<exists>results.
        snd (call_target (new ! k)) ! 2 = LTable results \<and>
        length results = unat n \<and>
        results = map (\<lambda>i. (int i + 1, entry i)) [0 ..< unat n] \<and>
        (\<forall>i < unat n. results ! i = (int i + 1, entry i)))"
proof -
  have n: "load_u32 (byte_order P) d 0 = n"
    using assms(5) by (simp add: load_u32_horner field_def)
  have acc: "accepted P d"
    using assms(3,4,6) n by (intro exact_length_accepted) simp_all
  from read_accepted_trace [OF acc, of E ctx] obtain ctx' new where
    rd: "rspamd_log_helper_read P E (Pending d) ctx = Some ctx'"
    and pc: "pcalls (L ctx') = pcalls (L ctx) @ new"
    and tg: "map call_target new = invocations P ctx (scripts ctx) d"
    by blast
  have len: "length new = length (scripts ctx)"
    using arg_cong [OF tg, of length] by (simp add: invocations_def)
  have entry: "symbol_entry P d i = entry i" for i
    by (simp add: symbol_entry_def entry_def field_def sm_result_id_def sm_result_score_def
        load_u32_horner load_f64_horner)
  have tbl: "symbol_results P d (unat n) = map (\<lambda>i. (int i + 1, entry i)) [0 ..< unat n]"
    by (simp add: symbol_results_def entry)
  have res: "\<exists>results.
        snd (call_target (new ! k)) ! 2 = LTable results \<and>
        length results = unat n \<and>
        results = map (\<lambda>i. (int i + 1, entry i)) [0 ..< unat n] \<and>
        (\<forall>i < unat n. results ! i = (int i + 1, entry i))" if k: "k < length new" for k
  proof -
    have "call_target (new ! k) = map call_target new ! k"
      using k by simp
    also have "\<dots> = (registry_get (L ctx) (scripts ctx ! k), handler_args P (cfg ctx) d n)"
      using k len by (simp add: tg invocations_def n)
    finally have "snd (call_target (new ! k)) ! 2 = LTable (symbol_results P d (unat n))"
      by (simp add: handler_args_def)
    then show ?thesis
      unfolding tbl by simp
  qed
  show ?thesis
    using rd pc len res by blast
qed

text \<open>
  The frame \<open>ex_frame2\<close> announces two results and carries (5, 1.0) and (9, 2.0): both
  handlers get the table with the entry for 5 under key 1 and the entry for 9 under key 2,
  the scores as the bit patterns of 1.0 and 2.0.
\<close>

theorem exact_frame_results_in_order_witness:
  "length ex_frame2 = header_size ex_P + unat (2 :: 32 word) * symbol_result_size ex_P \<and>
   length ex_frame2 \<le> buf_size \<and>
   (of_nat (horner_sum unat 256 (take 4 ex_frame2)) :: 32 word) = 2 \<and>
   0 < symbol_result_size ex_P \<and>
   (\<exists>ctx' new. rspamd_log_helper_read ex_P ex_E (Pending ex_frame2) ex_ctx = Some ctx' \<and>
     pcalls (L ctx') = new \<and>
     length new = 2 \<and>
     snd (call_target (new ! 0)) ! 2 =
       LTable [(1, LTable [(1, LNum (Integral 5)), (2, LNum (Double 0x3FF0000000000000))]),
               (2, LTable [(1, LNum (Integral 9)), (2, LNum (Double 0x4000000000000000))])] \<and>
     snd (call_target (new ! 1)) ! 2 =
       LTable [(1, LTable [(1, LNum (Integral 5)), (2, LNum (Double 0x3FF0000000000000))]),
               (2, LTable [(1, LNum (Integral 9)), (2, LNum (Double 0x4000000000000000))])])"
proof -
  have h1: "length ex_frame2 = header_size ex_P + unat (2 :: 32 word) * symbol_result_size ex_P"
    by (simp add: ex_lengths ex_P_fields)
  have h2: "length ex_frame2 \<le> buf_size"
    by (simp add: ex_lengths buf_size_def)
  have h3: "(of_nat (horner_sum unat 256 (take 4 ex_frame2)) :: 32 word) = 2"
    by (simp add: ex_frame2_bytes)
  have h3': "of_nat (horner_sum unat 256
     (case byte_order ex_P of LittleEndian \<Rightarrow> take 4 (drop 0 ex_frame2)
      | BigEndian \<Rightarrow> rev (take 4 (drop 0 ex_frame2)))) = (2 :: 32 word)"
    by (simp add: ex_P_fields ex_frame2_bytes)
  have h4: "0 < symbol_result_size ex_P"
    by (simp add: ex_P_fields)
  have upt: "[0 ..< (2 :: nat)] = [0, Suc 0]"
    by (simp add: upt_conv_Cons)
  have concl: "\<exists>ctx' new. rspamd_log_helper_read ex_P ex_E (Pending ex_frame2) ex_ctx = Some ctx' \<and>
     pcalls (L ctx') = new \<and>
     length new = 2 \<and>
     snd (call_target (new ! 0)) ! 2 =
       LTable [(1, LTable [(1, LNum (Integral 5)), (2, LNum (Double 0x3FF0000000000000))]),
               (2, LTable [(1, LNum (Integral 9)), (2, LNum (Double 0x4000000000000000))])] \<and>
     snd (call_target (new ! 1)) ! 2 =
       LTable [(1, LTable [(1, LNum (Integral 5)), (2, LNum (Double 0x3FF0000000000000))]),
               (2, LTable [(1, LNum (Integral 9)), (2, LNum (Double 0x4000000000000000))])]"
    using exact_frame_results_in_order [OF h1 h2 h3' h4, of ex_E ex_ctx]
    apply (elim exE conjE)
    subgoal for ctx' new
      apply (rule exI [of _ ctx'])
      apply (rule exI [of _ new])
      apply (frule spec [of _ 0])
      apply (drule spec [of _ 1])
      apply (simp add: upt ex_ctx_fields ex_lua_def ex_P_fields ex_P_offsets ex_frame2_bytes)
      done
    done
  show ?thesis
    by (intro conjI h1 h2 h3 h4 concl)
qed

subsection \<open>C3: a frame shorter than the header\<close>

text \<open>
  Three bytes arrive: the worker's state after the callback is the state before it, with
  no line added to the log.
\<close>

theorem short_frame_not_logged:
  "length [1, 2, 3 :: byte] < header_size ex_P \<and>
   rspamd_log_helper_read ex_P ex_E (Pending [1, 2, 3]) ex_ctx = Some ex_ctx"
  by (simp add: read_short ex_P_fields)

text \<open>
  C3, as the code has it: for every byte buffer whose length is less than \<open>header_size\<close>
  the frame is discarded, no handler is invoked and the process goes on, but nothing is
  logged; the warning of this branch is logged only when \<open>read\<close> itself fails with -1.
\<close>

theorem short_frame_dropped_silently:
  "(length d < header_size P \<longrightarrow> rspamd_log_helper_read P E (Pending d) ctx = Some ctx) \<and>
   rspamd_log_helper_read P E (Failing e) ctx =
     Some (ctx\<lparr>logger := logger ctx @ [Warn_read_error e]\<rparr>)"
  by (simp add: read_short read_failing msg_def)

theorem short_frame_dropped_silently_witness:
  "length [1, 2, 3 :: byte] < header_size ex_P \<and>
   rspamd_log_helper_read ex_P ex_E (Pending [1, 2, 3]) ex_ctx = Some ex_ctx \<and>
   rspamd_log_helper_read ex_P ex_E (Failing 104) ex_ctx =
     Some (ex_ctx\<lparr>logger := [Warn_read_error 104]\<rparr>)"
proof -
  have h: "length [1, 2, 3 :: byte] < header_size ex_P"
    by (simp add: ex_P_def)
  have lg: "logger ex_ctx = []"
    by (simp add: ex_ctx_def)
  show ?thesis
    using short_frame_dropped_silently [of "[1, 2, 3]" ex_P ex_E ex_ctx 104] h
    by (simp add: lg)
qed

subsection \<open>C4: a failing handler does not stop the others\<close>

text \<open>
  C4: for every accepted frame, whatever the engine makes of each call, the protected
  calls of the cycle are those of \<open>invoke_all\<close> on the registered handlers in order, all
  with the arguments of this frame; every call that raised an error has its line in the
  log, made from the error value; the read event stays added and the loop goes on with
  the next event.
\<close>

theorem failing_handler_isolated:
  assumes "accepted P d" and "log_ev_added ctx"
  shows "\<exists>ctx' new. rspamd_log_helper_read P E (Pending d) ctx = Some ctx' \<and>
     pcalls (L ctx') = pcalls (L ctx) @ new \<and>
     new = fst (invoke_all E (globals (L ctx)) (invocations P ctx (scripts ctx) d)) \<and>
     map call_target new = invocations P ctx (scripts ctx) d \<and>
     logger ctx' = logger ctx @ error_lines E new \<and>
     (\<forall>k err. k < length new \<and> snd (snd (new ! k)) = Some err \<longrightarrow>
        Err_handler (tostring E err) \<in> set (error_lines E new)) \<and>
     log_ev_added ctx' \<and>
     event_base_loop P E (Read_ready (Pending d) # evs) ctx = event_base_loop P E evs ctx'"
proof -
  from read_accepted_trace [OF assms(1), of E ctx] obtain ctx' new where
    rd: "rspamd_log_helper_read P E (Pending d) ctx = Some ctx'"
    and pc: "pcalls (L ctx') = pcalls (L ctx) @ new"
    and tg: "map call_target new = invocations P ctx (scripts ctx) d"
    and lg: "logger ctx' = logger ctx @ error_lines E new"
    by blast
  have new: "new = fst (invoke_all E (globals (L ctx)) (invocations P ctx (scripts ctx) d))"
    using read_accepted_invoke_all(1) [OF assms(1) rd] pc by simp
  have added: "log_ev_added ctx'"
    using read_preserves(5) [OF rd] assms(2) by simp
  have step: "event_base_loop P E (Read_ready (Pending d) # evs) ctx = event_base_loop P E evs ctx'"
    using loop_read_step [OF assms(2) rd] .
  have errs: "\<forall>k err. k < length new \<and> snd (snd (new ! k)) = Some err \<longrightarrow>
        Err_handler (tostring E err) \<in> set (error_lines E new)"
    using error_line_mem by blast
  show ?thesis
    using rd pc new tg lg errs added step by blast
qed

theorem failing_handler_isolated_witness:
  "accepted ex_P ex_frame2 \<and> log_ev_added ex_ctx \<and>
   fst (run_fn ex_E 0 (LFunction 1) (handler_args ex_P 7 ex_frame2 2)) = Some (LStr ''boom'') \<and>
   event_base_loop ex_P ex_E [Read_ready (Pending ex_frame2)] ex_ctx =
     Some (Running,
       ex_ctx\<lparr>L := ex_lua\<lparr>globals := 2,
                 pcalls := [(LFunction 1, handler_args ex_P 7 ex_frame2 2, Some (LStr ''boom'')),
                            (LFunction 2, handler_args ex_P 7 ex_frame2 2, None)]\<rparr>,
              logger := [Err_handler (Some ''boom'')]\<rparr>)"
proof -
  note acc = ex_accepted(2) and added = ex_ctx_fields(3)
  from failing_handler_isolated [OF acc added, of ex_E "[]"] obtain ctx' where
    rd: "rspamd_log_helper_read ex_P ex_E (Pending ex_frame2) ex_ctx = Some ctx'"
    and added': "log_ev_added ctx'"
    and lp: "event_base_loop ex_P ex_E [Read_ready (Pending ex_frame2)] ex_ctx =
             event_base_loop ex_P ex_E [] ctx'"
    by blast
  have ctx': "ctx' = ex_ctx\<lparr>L := ex_lua\<lparr>globals := 2,
                 pcalls := [(LFunction 1, handler_args ex_P 7 ex_frame2 2, Some (LStr ''boom'')),
                            (LFunction 2, handler_args ex_P 7 ex_frame2 2, None)]\<rparr>,
              logger := [Err_handler (Some ''boom'')]\<rparr>"
    using rd ex_read_accepted [OF acc] by (simp add: ex_counts ex_P_fields(1))
  have fails: "fst (run_fn ex_E 0 (LFunction 1) (handler_args ex_P 7 ex_frame2 2)) = Some (LStr ''boom'')"
    by (simp add: ex_E_def)
  show ?thesis
    using acc added fails lp added' ctx' by simp
qed

subsection \<open>C5: every handler once per frame, in order\<close>



subsection \<open>C6: establishing the channel\<close>

text \<open>
  C6: \<open>start_log_helper\<close> asks for a \<open>SOCK_SEQPACKET\<close> pair first, where the platform
  has it, and for a \<open>SOCK_DGRAM\<close> pair only when it has not or when the first call
  returned -1. When the calls made have all failed, the process logs the error and exits
  with \<open>EXIT_SUCCESS\<close> at once: no command is sent to the main process.
\<close>

theorem channel_establishment:
  "\<exists>ph ctx'. start_log_helper P E sys evs worker = Some (ph, ctx') \<and>
     filter is_socketpair (actions ctx') =
       (if have_sock_seqpacket P then [Socketpair SOCK_SEQPACKET] else []) @
       (if have_sock_seqpacket P \<and> socketpair_rc sys SOCK_SEQPACKET \<noteq> - 1 then []
        else [Socketpair SOCK_DGRAM]) \<and>
     (socketpair_rc sys SOCK_DGRAM = - 1 \<and>
      (have_sock_seqpacket P \<longrightarrow> socketpair_rc sys SOCK_SEQPACKET = - 1) \<longrightarrow>
        ph = Stopped \<and>
        actions ctx' =
          (if have_sock_seqpacket P then [Socketpair SOCK_SEQPACKET] else []) @
          [Socketpair SOCK_DGRAM, Exit EXIT_SUCCESS] \<and>
        logger ctx' = [Err_socketpair (socketpair_errno sys SOCK_DGRAM)] \<and>
        Srv_send_command \<notin> set (actions ctx') \<and>
        L ctx' = cfg_lua_state worker)"
proof -
  let ?ctx = "\<lparr>cfg = srv_cfg worker, scripts = cf_scripts worker, L = cfg_lua_state worker,
                 log_ev_added = False, logger = [], actions = []\<rparr>"
  let ?c1 = "if have_sock_seqpacket P then act (Socketpair SOCK_SEQPACKET) ?ctx else ?ctx"
  let ?c2 = "act (Socketpair SOCK_DGRAM) ?c1"
  let ?retry = "have_sock_seqpacket P \<longrightarrow> socketpair_rc sys SOCK_SEQPACKET = - 1"
  show ?thesis
  proof (cases ?retry)
    case False
    then have start: "start_log_helper P E sys evs worker = run_worker P E evs ?c1"
      by (simp add: start_log_helper_def Let_def)
    obtain ph ctx' where rw: "run_worker P E evs ?c1 = Some (ph, ctx')"
      and sp: "filter is_socketpair (actions ctx') = filter is_socketpair (actions ?c1)"
      using run_worker_actions [of P E evs ?c1] by blast
    show ?thesis
      using False start rw sp by (simp add: act_def)
  next
    case True
    show ?thesis
    proof (cases "socketpair_rc sys SOCK_DGRAM = - 1")
      case fail: True
      have start: "start_log_helper P E sys evs worker =
          Some (Stopped, act (Exit EXIT_SUCCESS)
                  (msg (Err_socketpair (socketpair_errno sys SOCK_DGRAM)) ?c2))"
        using True fail by (simp add: start_log_helper_def Let_def)
      show ?thesis
        using True fail unfolding start by (simp add: act_def msg_def)
    next
      case ok: False
      have start: "start_log_helper P E sys evs worker = run_worker P E evs ?c2"
        using True ok by (simp add: start_log_helper_def Let_def)
      obtain ph ctx' where rw: "run_worker P E evs ?c2 = Some (ph, ctx')"
        and sp: "filter is_socketpair (actions ctx') = filter is_socketpair (actions ?c2)"
        using run_worker_actions [of P E evs ?c2] by blast
      show ?thesis
        using True ok start rw sp by (auto simp: act_def)
    qed
  qed
qed

theorem channel_establishment_witness:
  "have_sock_seqpacket ex_P \<and> socketpair_rc ex_os_none SOCK_SEQPACKET = - 1 \<and>
   socketpair_rc ex_os_none SOCK_DGRAM = - 1 \<and>
   (\<exists>ctx'. start_log_helper ex_P ex_E ex_os_none [Srv_reply] ex_worker = Some (Stopped, ctx') \<and>
      actions ctx' = [Socketpair SOCK_SEQPACKET, Socketpair SOCK_DGRAM, Exit EXIT_SUCCESS] \<and>
      logger ctx' = [Err_socketpair 97] \<and>
      Srv_send_command \<notin> set (actions ctx'))"
proof -
  have h1: "have_sock_seqpacket ex_P"
    by (simp add: ex_P_fields)
  have h2: "socketpair_rc ex_os_none SOCK_SEQPACKET = - 1"
    and h3: "socketpair_rc ex_os_none SOCK_DGRAM = - 1"
    and h4: "socketpair_errno ex_os_none SOCK_DGRAM = 97"
    by (simp_all add: ex_os_none_def)
  from channel_establishment [of ex_P ex_E ex_os_none "[Srv_reply]" ex_worker]
  obtain ph ctx' where
    st: "start_log_helper ex_P ex_E ex_os_none [Srv_reply] ex_worker = Some (ph, ctx')"
    and imp: "socketpair_rc ex_os_none SOCK_DGRAM = - 1 \<and>
      (have_sock_seqpacket ex_P \<longrightarrow> socketpair_rc ex_os_none SOCK_SEQPACKET = - 1) \<longrightarrow>
        ph = Stopped \<and>
        actions ctx' =
          (if have_sock_seqpacket ex_P then [Socketpair SOCK_SEQPACKET] else []) @
          [Socketpair SOCK_DGRAM, Exit EXIT_SUCCESS] \<and>
        logger ctx' = [Err_socketpair (socketpair_errno ex_os_none SOCK_DGRAM)] \<and>
        Srv_send_command \<notin> set (actions ctx') \<and>
        L ctx' = cfg_lua_state ex_worker"
    by blast
  from imp h1 h2 h3 h4 have
    "ph = Stopped"
    "actions ctx' = [Socketpair SOCK_SEQPACKET, Socketpair SOCK_DGRAM, Exit EXIT_SUCCESS]"
    "logger ctx' = [Err_socketpair 97]"
    "Srv_send_command \<notin> set (actions ctx')"
    by simp_all
  with st h1 h2 h3 show ?thesis
    by blast
qed

subsection \<open>C7: what a failed read does to the loop\<close>

text \<open>
  A read that fails with \<open>EBADF\<close> (9) and then a read of zero bytes, as from a closed
  peer: the loop is still running, with the read event added and one warning logged.
\<close>

theorem failed_read_keeps_running:
  "log_ev_added ex_ctx \<and>
   event_base_loop ex_P ex_E [Read_ready (Failing 9), Read_ready (Pending [])] ex_ctx =
     Some (Running, ex_ctx\<lparr>logger := [Warn_read_error 9]\<rparr>)"
proof -
  have hs: "length ([] :: byte list) < header_size ex_P"
    by (simp add: ex_P_fields)
  show ?thesis
    by (simp add: ex_ctx_fields read_failing read_short [OF hs] msg_def)
qed

text \<open>
  C7, as the code has it: no result of a read makes the loop leave its running state.
  Whatever \<open>read\<close> returns, the callback returns with the read event still added and the
  loop takes the next event; a read that fails, for whatever reason, is logged as a
  warning, a read of zero bytes changes nothing; the loop stops exactly when a
  termination request is among its events.
\<close>

theorem read_result_never_stops_loop:
  assumes "log_ev_added ctx"
  shows "(\<exists>ctx'. rspamd_log_helper_read P E inp ctx = Some ctx' \<and> log_ev_added ctx' \<and>
            event_base_loop P E (Read_ready inp # evs) ctx = event_base_loop P E evs ctx') \<and>
         rspamd_log_helper_read P E (Failing e) ctx =
           Some (ctx\<lparr>logger := logger ctx @ [Warn_read_error e]\<rparr>) \<and>
         (0 < header_size P \<longrightarrow> rspamd_log_helper_read P E (Pending []) ctx = Some ctx) \<and>
         ((\<exists>ctx'. event_base_loop P E evs ctx = Some (Stopped, ctx')) \<longleftrightarrow> Term_signal \<in> set evs)"
proof -
  obtain ctx' where rd: "rspamd_log_helper_read P E inp ctx = Some ctx'"
    using read_total by blast
  have added: "log_ev_added ctx'"
    using read_preserves(5) [OF rd] assms by simp
  have first: "\<exists>ctx'. rspamd_log_helper_read P E inp ctx = Some ctx' \<and> log_ev_added ctx' \<and>
            event_base_loop P E (Read_ready inp # evs) ctx = event_base_loop P E evs ctx'"
    using rd added loop_read_step [OF assms rd] by blast
  have closed: "0 < header_size P \<longrightarrow> rspamd_log_helper_read P E (Pending []) ctx = Some ctx"
    by (simp add: read_short)
  show ?thesis
    using first closed loop_stopped_iff [of P E evs ctx] by (simp add: read_failing msg_def)
qed

theorem read_result_never_stops_loop_witness:
  "log_ev_added ex_ctx \<and> 0 < header_size ex_P \<and>
   rspamd_log_helper_read ex_P ex_E (Failing 9) ex_ctx =
     Some (ex_ctx\<lparr>logger := logger ex_ctx @ [Warn_read_error 9]\<rparr>) \<and>
   rspamd_log_helper_read ex_P ex_E (Pending []) ex_ctx = Some ex_ctx \<and>
   Term_signal \<notin> set [Read_ready (Failing 9), Read_ready (Pending [])] \<and>
   \<not> (\<exists>ctx'. event_base_loop ex_P ex_E [Read_ready (Failing 9), Read_ready (Pending [])] ex_ctx =
           Some (Stopped, ctx'))"
proof -
  note added = ex_ctx_fields(3)
  have hs: "0 < header_size ex_P"
    by (simp add: ex_P_fields)
  have nt: "Term_signal \<notin> set [Read_ready (Failing 9), Read_ready (Pending [])]"
    by simp
  note concl = read_result_never_stops_loop [OF added, of ex_P ex_E "Failing 9" "[]" 9]
  note loop = read_result_never_stops_loop [OF added, of ex_P ex_E "Failing 9"
      "[Read_ready (Failing 9), Read_ready (Pending [])]" 9]
  from concl have a: "rspamd_log_helper_read ex_P ex_E (Failing 9) ex_ctx =
     Some (ex_ctx\<lparr>logger := logger ex_ctx @ [Warn_read_error 9]\<rparr>)"
    by (elim conjE)
  from concl hs have b: "rspamd_log_helper_read ex_P ex_E (Pending []) ex_ctx = Some ex_ctx"
    by (elim conjE) (erule mp)
  from loop nt have c: "\<not> (\<exists>ctx'. event_base_loop ex_P ex_E
      [Read_ready (Failing 9), Read_ready (Pending [])] ex_ctx = Some (Stopped, ctx'))"
    by (elim conjE) (erule ssubst)
  show ?thesis
    by (intro conjI added hs a b nt c)
qed

subsection \<open>C8: an event larger than the read buffer\<close>

text \<open>
  C8: for every event whose encoded size, \<open>header_size\<close> plus the announced count times
  \<open>symbol_result_size\<close>, exceeds the 1024 bytes of the read buffer, one read delivers
  1024 bytes, the announced count exceeds the number of whole results among them, and the
  event is discarded with the bad-length warning and without any handler invocation.
  (Were the header alone larger than the buffer, the frame would be dropped as too short.)
\<close>

theorem oversized_event_discarded:
  assumes "length d = header_size P + unat (load_u32 (byte_order P) d 0) * symbol_result_size P"
    and "buf_size < length d"
  shows "fst (sys_read (Pending d) buf_size) = int buf_size \<and>
         (header_size P \<le> buf_size \<longrightarrow>
            (buf_size - header_size P) div symbol_result_size P < unat (load_u32 (byte_order P) d 0)) \<and>
         rspamd_log_helper_read P E (Pending d) ctx =
           Some (if header_size P \<le> buf_size
                 then ctx\<lparr>logger := logger ctx @
                        [Warn_bad_length (load_u32 (byte_order P) d 0)
                           ((buf_size - header_size P) div symbol_result_size P)]\<rparr>
                 else ctx)"
proof -
  let ?n = "load_u32 (byte_order P) d 0"
  let ?d = "take buf_size d"
  have len: "min (length d) buf_size = buf_size"
    using assms(2) by simp
  have n: "load_u32 (byte_order P) ?d 0 = ?n"
    by (simp add: load_u32_take buf_size_def)
  have less: "(buf_size - header_size P) div symbol_result_size P < unat ?n"
    if hs: "header_size P \<le> buf_size"
  proof -
    from assms hs have gt: "buf_size - header_size P < unat ?n * symbol_result_size P"
      by linarith
    then have "0 < symbol_result_size P"
      by (cases "symbol_result_size P") simp_all
    with gt show ?thesis
      by (simp add: div_less_iff_less_mult)
  qed
  have rd: "rspamd_log_helper_read P E (Pending d) ctx =
      Some (if header_size P \<le> buf_size
            then ctx\<lparr>logger := logger ctx @
                   [Warn_bad_length ?n ((buf_size - header_size P) div symbol_result_size P)]\<rparr>
            else ctx)"
  proof (cases "header_size P \<le> buf_size")
    case True
    have "rspamd_log_helper_read P E (Pending ?d) ctx =
        Some (msg (Warn_bad_length (load_u32 (byte_order P) ?d 0)
                 ((length ?d - header_size P) div symbol_result_size P)) ctx)"
      using True less [OF True] by (intro read_bad_length) (simp_all add: len n)
    then show ?thesis
      using True by (simp add: read_truncates [of P E d] len n msg_def)
  next
    case False
    then have "rspamd_log_helper_read P E (Pending ?d) ctx = Some ctx"
      by (intro read_short) (simp add: len)
    then show ?thesis
      using False by (simp add: read_truncates [of P E d])
  qed
  show ?thesis
    using assms(2) less rd by simp
qed

theorem oversized_event_discarded_witness:
  "length ex_frame_big =
     header_size ex_P + unat (load_u32 (byte_order ex_P) ex_frame_big 0) * symbol_result_size ex_P \<and>
   buf_size < length ex_frame_big \<and> header_size ex_P \<le> buf_size \<and>
   fst (sys_read (Pending ex_frame_big) buf_size) = 1024 \<and>
   rspamd_log_helper_read ex_P ex_E (Pending ex_frame_big) ex_ctx =
     Some (ex_ctx\<lparr>logger := [Warn_bad_length 64 62]\<rparr>)"
proof -
  have h1: "length ex_frame_big =
     header_size ex_P + unat (load_u32 (byte_order ex_P) ex_frame_big 0) * symbol_result_size ex_P"
    by (simp add: ex_lengths ex_counts ex_P_fields)
  have h2: "buf_size < length ex_frame_big"
    by (simp add: ex_lengths buf_size_def)
  have h3: "header_size ex_P \<le> buf_size"
    by (simp add: ex_P_fields buf_size_def)
  have q: "(buf_size - header_size ex_P) div symbol_result_size ex_P = 62"
    by (simp add: ex_P_fields buf_size_def)
  show ?thesis
    using oversized_event_discarded [OF h1 h2, of ex_E ex_ctx] h1 h2 h3
    by (simp add: q ex_counts ex_P_fields(1) ex_ctx_fields(2)) (simp add: buf_size_def)
qed

subsection \<open>C9: a frame without symbols\<close>

text \<open>
  C9: a frame of exactly \<open>header_size\<close> bytes that announces no symbols is accepted:
  every registered handler is called once, with the score, the required score, an empty
  table of results, the configuration object and the settings identifier, the three
  numbers being those that the bytes of the header spell out (\<open>field off len\<close> is the number
  that the \<open>len\<close> bytes at offset \<open>off\<close> of the frame are in the byte order of the platform).
\<close>

theorem empty_frame_dispatched:
  fixes P :: platform and d :: "byte list"
  defines "field \<equiv> \<lambda>off len. horner_sum unat 256
     (case byte_order P of LittleEndian \<Rightarrow> take len (drop off d)
      | BigEndian \<Rightarrow> rev (take len (drop off d)))"
  assumes "length d = header_size P" and "header_size P \<le> buf_size"
    and "(of_nat (field 0 4) :: 32 word) = 0"
  shows "\<exists>ctx' new. rspamd_log_helper_read P E (Pending d) ctx = Some ctx' \<and>
     pcalls (L ctx') = pcalls (L ctx) @ new \<and>
     map call_target new =
       map (\<lambda>c. (registry_get (L ctx) c,
                  [LNum (Double (of_nat (field (score_off P) 8))),
                   LNum (Double (of_nat (field (required_score_off P) 8))),
                   LTable [],
                   LUserdata (Some ''rspamd{config}'') (Some (cfg ctx)),
                   LNum (Integral (uint (of_nat (field (settings_id_off P) 4) :: 32 word)))]))
           (scripts ctx)"
proof -
  have n: "load_u32 (byte_order P) d 0 = 0"
    using assms(4) by (simp add: load_u32_horner field_def)
  have acc: "accepted P d"
    using assms(2,3) n by (simp add: accepted_def)
  from read_accepted_trace [OF acc, of E ctx] obtain ctx' new where
    rd: "rspamd_log_helper_read P E (Pending d) ctx = Some ctx'"
    and pc: "pcalls (L ctx') = pcalls (L ctx) @ new"
    and tg: "map call_target new = invocations P ctx (scripts ctx) d"
    by blast
  have "invocations P ctx (scripts ctx) d =
       map (\<lambda>c. (registry_get (L ctx) c,
                  [LNum (Double (of_nat (field (score_off P) 8))),
                   LNum (Double (of_nat (field (required_score_off P) 8))),
                   LTable [],
                   LUserdata (Some ''rspamd{config}'') (Some (cfg ctx)),
                   LNum (Integral (uint (of_nat (field (settings_id_off P) 4) :: 32 word)))]))
           (scripts ctx)"
    unfolding invocations_def handler_args_def n
    by (simp add: symbol_results_def sm_score_def sm_required_score_def sm_settings_id_def
        load_u32_horner load_f64_horner field_def)
  with rd pc tg show ?thesis
    by auto
qed

text \<open>
  The frame \<open>ex_frame0\<close> is a header alone, with the score 5.0, the required score 15.0 and
  the settings identifier 3: both handlers are called with these and an empty table.
\<close>

theorem empty_frame_dispatched_witness:
  "length ex_frame0 = header_size ex_P \<and> header_size ex_P \<le> buf_size \<and>
   (of_nat (horner_sum unat 256 (take 4 ex_frame0)) :: 32 word) = 0 \<and>
   (\<exists>ctx' new. rspamd_log_helper_read ex_P ex_E (Pending ex_frame0) ex_ctx = Some ctx' \<and>
     pcalls (L ctx') = new \<and>
     map call_target new =
       [(LFunction 1,
         [LNum (Double 0x4014000000000000), LNum (Double 0x402E000000000000), LTable [],
          LUserdata (Some ''rspamd{config}'') (Some 7), LNum (Integral 3)]),
        (LFunction 2,
         [LNum (Double 0x4014000000000000), LNum (Double 0x402E000000000000), LTable [],
          LUserdata (Some ''rspamd{config}'') (Some 7), LNum (Integral 3)])])"
proof -
  have h1: "length ex_frame0 = header_size ex_P"
    by (simp add: ex_lengths ex_P_fields)
  have h2: "header_size ex_P \<le> buf_size"
    by (simp add: ex_P_fields buf_size_def)
  have h3: "(of_nat (horner_sum unat 256 (take 4 ex_frame0)) :: 32 word) = 0"
    by (simp add: ex_frame0_bytes)
  have h3': "(of_nat (horner_sum unat 256
     (case byte_order ex_P of LittleEndian \<Rightarrow> take 4 (drop 0 ex_frame0)
      | BigEndian \<Rightarrow> rev (take 4 (drop 0 ex_frame0)))) :: 32 word) = 0"
    by (simp add: ex_P_fields ex_frame0_bytes)
  have reg: "registry_get (L ex_ctx) 10 = LFunction 1" "registry_get (L ex_ctx) 11 = LFunction 2"
    by (simp_all add: registry_get_def ex_ctx_fields ex_lua_def)
  have pc: "pcalls (L ex_ctx) = []"
    by (simp add: ex_ctx_fields ex_lua_def)
  have concl: "\<exists>ctx' new. rspamd_log_helper_read ex_P ex_E (Pending ex_frame0) ex_ctx = Some ctx' \<and>
     pcalls (L ctx') = new \<and>
     map call_target new =
       [(LFunction 1,
         [LNum (Double 0x4014000000000000), LNum (Double 0x402E000000000000), LTable [],
          LUserdata (Some ''rspamd{config}'') (Some 7), LNum (Integral 3)]),
        (LFunction 2,
         [LNum (Double 0x4014000000000000), LNum (Double 0x402E000000000000), LTable [],
          LUserdata (Some ''rspamd{config}'') (Some 7), LNum (Integral 3)])]"
    using empty_frame_dispatched [OF h1 h2 h3', of ex_E ex_ctx]
    by (simp add: ex_ctx_fields(1,4) reg pc ex_P_fields ex_P_offsets ex_frame0_bytes)
  show ?thesis
    by (intro conjI h1 h2 h3 concl)
qed

subsection \<open>C10: the Lua stack is balanced\<close>

text \<open>
  C10: one pass through the body of the handler loop, with the callback and its five
  arguments pushed, the protected call made and a possible error value popped, returns
  with the stack it started from; so does the whole read callback, for every input, valid
  or not, and every pattern of handler failures.
\<close>

theorem stack_balanced:
  "(\<exists>ctx'. call_script P E sm n cbref ctx = Some ctx' \<and> stack (L ctx') = stack (L ctx)) \<and>
   (\<exists>ctx'. rspamd_log_helper_read P E inp ctx = Some ctx' \<and> stack (L ctx') = stack (L ctx))"
proof
  show "\<exists>ctx'. call_script P E sm n cbref ctx = Some ctx' \<and> stack (L ctx') = stack (L ctx)"
    by (simp add: call_script_eq after_call_fields)
  obtain ctx' where rd: "rspamd_log_helper_read P E inp ctx = Some ctx'"
    using read_total by blast
  then show "\<exists>ctx'. rspamd_log_helper_read P E inp ctx = Some ctx' \<and> stack (L ctx') = stack (L ctx)"
    using read_preserves(1) [OF rd] by simp
qed

theorem stack_balanced_witness:
  "(\<exists>ctx'. call_script ex_P ex_E ex_frame2 2 10 ex_ctx = Some ctx' \<and> stack (L ctx') = []) \<and>
   (\<exists>ctx'. rspamd_log_helper_read ex_P ex_E (Pending ex_frame2) ex_ctx = Some ctx' \<and>
      stack (L ctx') = [])"
proof -
  have st: "stack (L ex_ctx) = []"
    by (simp add: ex_ctx_fields ex_lua_def)
  show ?thesis
    using stack_balanced [of ex_P ex_E ex_frame2 2 10 ex_ctx "Pending ex_frame2"]
    unfolding st .
qed

end
